theory Spec2Isabelle
  imports Main "HOL-Library.Word"
begin

section \<open>NFC reader: identity resolver and detection loop\<close>

text \<open>
  A shallow embedding of \<^verbatim>\<open>client/src/nfc_reader.py\<close> (class \<^verbatim>\<open>NFCReader\<close>).
  The \<^verbatim>\<open>nfc\<close> library (nfcpy) is an external collaborator: every answer it gives
  (opening the device, sensing, activating, transceiving) is an input of the model, and
  every call the code makes to it, and to the two consumer callbacks, is recorded in a
  trace of events, in program order.
\<close>

subsection \<open>Bytes and their hexadecimal text\<close>

type_synonym bytes = "8 word list"

text \<open>
  An exception that is an instance of a subclass of Python's \<^verbatim>\<open>Exception\<close>, named by
  its class. The errors of the \<^verbatim>\<open>nfc\<close> library are of this kind.
\<close>

datatype py_exception = PyException string

text \<open>
  What consumer code may raise: an \<^verbatim>\<open>Exception\<close>, or an instance of another subclass of
  \<^verbatim>\<open>BaseException\<close> (\<^verbatim>\<open>SystemExit\<close>, \<^verbatim>\<open>KeyboardInterrupt\<close>), named by its class,
  which \<^verbatim>\<open>except Exception\<close> does not catch.
\<close>

datatype raised = Exception py_exception | BaseException string

text \<open>\<^verbatim>\<open>bytes.hex()\<close>: two lowercase hexadecimal digits per byte.\<close>

definition hexdigit :: "nat \<Rightarrow> char" where
  "hexdigit n = ''0123456789abcdef'' ! n"

definition hex_byte :: "8 word \<Rightarrow> string" where
  "hex_byte b = [hexdigit (unat b div 16), hexdigit (unat b mod 16)]"

definition hex :: "bytes \<Rightarrow> string" where
  "hex bs = concat (map hex_byte bs)"

text \<open>\<^verbatim>\<open>str.upper()\<close> on ASCII text: the letters a to z move to A to Z.\<close>

definition upper_char :: "char \<Rightarrow> char" where
  "upper_char c =
     (if 97 \<le> (of_char c :: nat) \<and> (of_char c :: nat) \<le> 122
      then char_of ((of_char c :: nat) - 32) else c)"

definition upper :: "string \<Rightarrow> string" where
  "upper s = map upper_char s"

text \<open>
  \<^verbatim>\<open>bytes.fromhex(s)\<close> on a string of hexadecimal digit pairs; \<open>None\<close> stands for the
  \<^verbatim>\<open>ValueError\<close> Python raises on anything else. (The two literals of the source hold
  no whitespace, which Python would skip.)
\<close>

definition hexval :: "char \<Rightarrow> nat option" where
  "hexval c =
     (let n = (of_char c :: nat) in
      if 48 \<le> n \<and> n \<le> 57 then Some (n - 48)
      else if 97 \<le> n \<and> n \<le> 102 then Some (n - 87)
      else if 65 \<le> n \<and> n \<le> 70 then Some (n - 55)
      else None)"

fun fromhex :: "string \<Rightarrow> bytes option" where
  "fromhex [] = Some []"
| "fromhex [c] = None"
| "fromhex (c # d # cs) =
     (case (hexval c, hexval d, fromhex cs) of
        (Some h, Some l, Some bs) \<Rightarrow> Some (of_nat (16 * h + l) # bs)
      | _ \<Rightarrow> None)"

text \<open>\<^verbatim>\<open>b.endswith(suffix)\<close> and the slice \<^verbatim>\<open>b[:-2]\<close> (empty when \<open>b\<close> has fewer than two bytes).\<close>

definition endswith :: "bytes \<Rightarrow> bytes \<Rightarrow> bool" where
  "endswith b suffix =
     (length suffix \<le> length b \<and> drop (length b - length suffix) b = suffix)"

definition strip_last2 :: "bytes \<Rightarrow> bytes" where
  "strip_last2 b = take (length b - 2) b"

text \<open>
  The specification's wording, "hex-encoded uppercase": each byte as two digits of
  \<open>0123456789ABCDEF\<close>, high nibble first. It is compared with the code's
  \<^verbatim>\<open>.hex().upper()\<close> in lemma \<open>upper_hex_is_uppercase_hex\<close>.
\<close>

definition uppercase_hex :: "bytes \<Rightarrow> string" where
  "uppercase_hex bs =
     concat (map (\<lambda>b. [''0123456789ABCDEF'' ! (unat b div 16),
                        ''0123456789ABCDEF'' ! (unat b mod 16)]) bs)"

subsection \<open>The reader capability, as the code consumes it\<close>

text \<open>
  An activated tag: its \<^verbatim>\<open>type\<close> attribute and what \<^verbatim>\<open>tag.transceive(cmd)\<close> answers
  for each command: an exception, \<^verbatim>\<open>None\<close>, or response bytes.
\<close>

record tag =
  tag_type :: string
  transceive :: "bytes \<Rightarrow> py_exception + bytes option"

text \<open>
  A target handle whose attribute \<^verbatim>\<open>sdd_res\<close> holds bytes, the hardware anti-collision
  identifier. \<open>activation\<close> is what \<^verbatim>\<open>nfc.tag.activate(clf, target)\<close> does for this
  handle: it raises, returns \<^verbatim>\<open>None\<close>, or returns a tag.
\<close>

record target =
  sdd_res :: bytes
  activation :: "py_exception + tag option"

text \<open>
  What \<^verbatim>\<open>clf.sense\<close> returns when something is in the field: an object of the library's
  class \<^verbatim>\<open>RemoteTarget\<close>. The source reads its attribute \<^verbatim>\<open>sdd_res\<close> without a check
  (line 130): either the attribute holds bytes, and the object is a \<open>target\<close> as above, or
  it holds none, and \<^verbatim>\<open>target.sdd_res.hex()\<close> raises \<^verbatim>\<open>AttributeError\<close>.
\<close>

datatype remote_target = WithSddRes target | WithoutSddRes

datatype frontend = ContactlessFrontend string

datatype thread = Thread

text \<open>A registered callback is an opaque callable; what a call of it does is an input.\<close>

datatype callable = Callable

datatype event =
    Open string
  | Close
  | Sense
  | Activate
  | Transceive bytes
  | CardCallback string
  | CardRemovedCallback

record NFCReader =
  port :: string
  card_callback :: "callable option"
  card_removed_callback :: "callable option"
  clf :: "frontend option"
  running :: bool
  reader_thread :: "thread option"
  current_uid :: "string option"

text \<open>\<^verbatim>\<open>__init__\<close>\<close>

definition init :: "string \<Rightarrow> callable option \<Rightarrow> callable option \<Rightarrow> NFCReader" where
  "init p cb rcb =
     \<lparr> port = p, card_callback = cb, card_removed_callback = rcb,
       clf = None, running = False, reader_thread = None, current_uid = None \<rparr>"

subsection \<open>The identity resolver\<close>

text \<open>
  Lines 142 to 153, the inner \<^verbatim>\<open>try\<close>: transceive the select command and check the
  status word. \<open>Inr (Some uid)\<close> is the \<^verbatim>\<open>return custom_uid\<close>; \<open>Inr None\<close> is
  falling out of the block, which a raise of \<^verbatim>\<open>transceive\<close> also does, through
  \<^verbatim>\<open>except Exception: pass\<close>. A \<^verbatim>\<open>bytes.fromhex\<close> that failed would raise inside the
  block and be passed over in the same way.
\<close>

definition select_app :: "tag \<Rightarrow> bytes \<Rightarrow> string option \<times> event list" where
  "select_app tg select_aid_apdu =
     (case transceive tg select_aid_apdu of
        Inl e \<Rightarrow> (None, [Transceive select_aid_apdu])
      | Inr None \<Rightarrow> (None, [Transceive select_aid_apdu])
      | Inr (Some response) \<Rightarrow>
          (case fromhex ''9000'' of
             None \<Rightarrow> (None, [Transceive select_aid_apdu])
           | Some sw \<Rightarrow>
               if response \<noteq> [] \<and> endswith response sw
               then (Some (upper (hex (strip_last2 response))), [Transceive select_aid_apdu])
               else (None, [Transceive select_aid_apdu])))"

text \<open>
  Lines 133 to 153, the body of the outer \<^verbatim>\<open>try\<close>. \<open>Inl e\<close> is an exception leaving
  the body, \<open>Inr (Some uid)\<close> a \<^verbatim>\<open>return\<close> from inside it, \<open>Inr None\<close> reaching its end.
\<close>

definition hce_check :: "target \<Rightarrow> (py_exception + string option) \<times> event list" where
  "hce_check tgt =
     (case activation tgt of
        Inl e \<Rightarrow> (Inl e, [Activate])
      | Inr None \<Rightarrow> (Inr None, [Activate])
      | Inr (Some tg) \<Rightarrow>
          if tag_type tg = ''Type4Tag''
          then (case fromhex ''00A4040007F000000001000100'' of
                  None \<Rightarrow> (Inl (PyException ''ValueError''), [Activate])
                | Some select_aid_apdu \<Rightarrow>
                    (case select_app tg select_aid_apdu of
                       (res, evs) \<Rightarrow> (Inr res, Activate # evs)))
          else (Inr None, [Activate]))"

text \<open>
  \<^verbatim>\<open>_extract_uid\<close>. The hardware identifier is computed first, outside the \<^verbatim>\<open>try\<close>;
  \<^verbatim>\<open>except Exception\<close> (line 155) turns every exception of the body into the fallback.
  The result is \<open>Inl\<close> for an exception that reaches the caller, \<open>Inr\<close> for the string
  returned.
\<close>

definition extract_uid :: "target \<Rightarrow> (py_exception + string) \<times> event list" where
  "extract_uid tgt =
     (let hw_uid = upper (hex (sdd_res tgt)) in
      case hce_check tgt of
        (Inr (Some custom_uid), evs) \<Rightarrow> (Inr custom_uid, evs)
      | (Inr None, evs) \<Rightarrow> (Inr hw_uid, evs)
      | (Inl e, evs) \<Rightarrow> (Inr hw_uid, evs))"

text \<open>
  \<^verbatim>\<open>_extract_uid\<close> on the object that \<^verbatim>\<open>sense\<close> returned. Line 130 stands before the
  \<^verbatim>\<open>try\<close>: without \<^verbatim>\<open>sdd_res\<close> its \<^verbatim>\<open>AttributeError\<close> goes to the caller, and
  nothing has been sent to the target yet.
\<close>

definition extract_uid_remote :: "remote_target \<Rightarrow> (py_exception + string) \<times> event list" where
  "extract_uid_remote h =
     (case h of
        WithoutSddRes \<Rightarrow> (Inl (PyException ''AttributeError''), [])
      | WithSddRes tgt \<Rightarrow> extract_uid tgt)"

subsection \<open>Connection and lifecycle\<close>

text \<open>
  What opening the device does: the \<^verbatim>\<open>nfc\<close> module is missing (the import failed),
  \<^verbatim>\<open>nfc.ContactlessFrontend(port)\<close> raises, or it returns a frontend.
\<close>

datatype open_result = NfcMissing | OpenRaises py_exception | Opened frontend

text \<open>\<^verbatim>\<open>connect\<close>: the boolean returned, the reader afterwards, the calls made.\<close>

definition connect :: "open_result \<Rightarrow> NFCReader \<Rightarrow> bool \<times> NFCReader \<times> event list" where
  "connect opened r =
     (case opened of
        NfcMissing \<Rightarrow> (False, r, [])
      | OpenRaises e \<Rightarrow> (False, r, [Open (port r)])
      | Opened c \<Rightarrow> (True, r\<lparr>clf := Some c\<rparr>, [Open (port r)]))"

text \<open>
  Modelled from the spec: \<^verbatim>\<open>clf.close()\<close> belongs to the reader capability, which is
  not part of the repository. The specification (section 6) lists \<^verbatim>\<open>close(Connection)\<close>
  with no error result, unlike \<^verbatim>\<open>open\<close>, \<^verbatim>\<open>activate\<close> and \<^verbatim>\<open>transceive\<close>: closing
  returns, and is one call to the driver.
\<close>

definition close :: "frontend \<Rightarrow> event list" where
  "close c = [Close]"

text \<open>\<^verbatim>\<open>disconnect\<close>: with no frontend, nothing is called and nothing changes.\<close>

definition disconnect :: "NFCReader \<Rightarrow> NFCReader \<times> event list" where
  "disconnect r =
     (case clf r of
        Some c \<Rightarrow> (r\<lparr>clf := None\<rparr>, close c)
      | None \<Rightarrow> (r, []))"

text \<open>
  \<^verbatim>\<open>start\<close>: the boolean says whether a new thread running \<^verbatim>\<open>_reader_loop\<close> was
  started.
\<close>

definition start :: "NFCReader \<Rightarrow> NFCReader \<times> bool" where
  "start r =
     (if \<not> running r
      then (r\<lparr>running := True, reader_thread := Some Thread\<rparr>, True)
      else (r, False))"

text \<open>The thread that makes a call: the controlling context, or the polling thread itself
  (consumer callbacks run on it, lines 110 and 118).\<close>

datatype caller = ControllingContext | PollingThread

text \<open>
  \<^verbatim>\<open>self.reader_thread.join(timeout=2)\<close>, line 89. On another thread it waits and
  returns; on the polling thread, which is \<^verbatim>\<open>reader_thread\<close>, Python raises
  \<^verbatim>\<open>RuntimeError\<close> (a thread cannot join itself).
\<close>

definition join :: "caller \<Rightarrow> py_exception option" where
  "join who = (if who = PollingThread then Some (PyException ''RuntimeError'') else None)"

text \<open>
  \<^verbatim>\<open>stop\<close>: the exception raised (if any), the reader afterwards, the calls made. The flag
  is cleared first; \<^verbatim>\<open>join\<close> is called when a thread was ever started; a raise of it
  leaves \<^verbatim>\<open>stop\<close> before \<^verbatim>\<open>disconnect\<close> (line 90).
\<close>

definition stop :: "caller \<Rightarrow> NFCReader \<Rightarrow> py_exception option \<times> NFCReader \<times> event list" where
  "stop who r =
     (let r1 = r\<lparr>running := False\<rparr> in
      case (if reader_thread r1 \<noteq> None then join who else None) of
        Some e \<Rightarrow> (Some e, r1, [])
      | None \<Rightarrow> (case disconnect r1 of (r2, evs) \<Rightarrow> (None, r2, evs)))"

definition is_connected :: "NFCReader \<Rightarrow> bool" where
  "is_connected r = (running r \<and> clf r \<noteq> None)"

subsection \<open>The detection loop\<close>

text \<open>
  What the outside world does during one iteration: the answer of \<^verbatim>\<open>clf.sense\<close> (an
  exception, \<^verbatim>\<open>None\<close> or a target object), and, for each callback, what it raises if it
  is called in this iteration (\<open>None\<close>: it returns).
\<close>

record poll_env =
  sense_result :: "py_exception + remote_target option"
  card_callback_raises :: "raised option"
  card_removed_callback_raises :: "raised option"

text \<open>
  Lines 100 to 119, the body of the \<^verbatim>\<open>try\<close> inside the loop: the exception that leaves
  it (if any), the reader afterwards and the calls made. With no frontend,
  \<^verbatim>\<open>self.clf.sense\<close> raises \<^verbatim>\<open>AttributeError\<close>.
\<close>

definition iteration_body ::
    "poll_env \<Rightarrow> NFCReader \<Rightarrow> raised option \<times> NFCReader \<times> event list" where
  "iteration_body env r =
     (case clf r of
        None \<Rightarrow> (Some (Exception (PyException ''AttributeError'')), r, [])
      | Some c \<Rightarrow>
          (case sense_result env of
             Inl e \<Rightarrow> (Some (Exception e), r, [Sense])
           | Inr (Some tgt) \<Rightarrow>
               (case extract_uid_remote tgt of
                  (Inl e, evs) \<Rightarrow> (Some (Exception e), r, Sense # evs)
                | (Inr uid, evs) \<Rightarrow>
                    if uid \<noteq> [] \<and> Some uid \<noteq> current_uid r
                    then (let r' = r\<lparr>current_uid := Some uid\<rparr> in
                          if card_callback r \<noteq> None
                          then (card_callback_raises env, r', Sense # evs @ [CardCallback uid])
                          else (None, r', Sense # evs))
                    else (None, r, Sense # evs))
           | Inr None \<Rightarrow>
               if current_uid r \<noteq> None
               then (if card_removed_callback r \<noteq> None
                     then (case card_removed_callback_raises env of
                             Some e \<Rightarrow> (Some e, r, [Sense, CardRemovedCallback])
                           | None \<Rightarrow> (None, r\<lparr>current_uid := None\<rparr>, [Sense, CardRemovedCallback]))
                     else (None, r\<lparr>current_uid := None\<rparr>, [Sense]))
               else (None, r, [Sense])))"

text \<open>
  One iteration with its handler, \<^verbatim>\<open>except Exception\<close> (line 120): an \<^verbatim>\<open>Exception\<close>
  is logged and the iteration ends normally; anything else raised is not caught and leaves
  the iteration (first component: its class).
\<close>

definition reader_iteration ::
    "poll_env \<Rightarrow> NFCReader \<Rightarrow> string option \<times> NFCReader \<times> event list" where
  "reader_iteration env r =
     (case iteration_body env r of
        (None, r', evs) \<Rightarrow> (None, r', evs)
      | (Some (Exception e), r', evs) \<Rightarrow> (None, r', evs)
      | (Some (BaseException b), r', evs) \<Rightarrow> (Some b, r', evs))"

text \<open>
  \<^verbatim>\<open>while self.running\<close>: one iteration for each element of the list, which holds what
  the outside world does in the iterations observed. The loop itself never clears the flag.
  An exception that leaves an iteration leaves the loop and ends the thread: no further
  iteration runs.
\<close>

fun while_running :: "poll_env list \<Rightarrow> NFCReader \<Rightarrow> NFCReader \<times> event list" where
  "while_running [] r = (r, [])"
| "while_running (env # envs) r =
     (if running r
      then (case reader_iteration env r of
              (Some b, r1, evs1) \<Rightarrow> (r1, evs1)
            | (None, r1, evs1) \<Rightarrow>
                (case while_running envs r1 of
                   (r2, evs2) \<Rightarrow> (r2, evs1 @ evs2)))
      else (r, []))"

text \<open>\<^verbatim>\<open>_reader_loop\<close>: a polling run.\<close>

definition reader_loop ::
    "open_result \<Rightarrow> poll_env list \<Rightarrow> NFCReader \<Rightarrow> NFCReader \<times> event list" where
  "reader_loop opened envs r =
     (case connect opened r of
        (False, r', evs) \<Rightarrow> (r', evs)
      | (True, r', evs) \<Rightarrow>
          (case while_running envs r' of
             (r'', evs') \<Rightarrow> (r'', evs @ evs')))"

text \<open>
  A call of \<^verbatim>\<open>start\<close> together with the polling run of the thread it starts (none when
  the reader is already marked running).
\<close>

definition start_run ::
    "open_result \<Rightarrow> poll_env list \<Rightarrow> NFCReader \<Rightarrow> NFCReader \<times> event list" where
  "start_run opened envs r =
     (case start r of
        (r', True) \<Rightarrow> reader_loop opened envs r'
      | (r', False) \<Rightarrow> (r', []))"

text \<open>Histories of calls made by the controlling context, from any reader state.\<close>

datatype call = Start open_result "poll_env list" | Stop

fun run_calls :: "call list \<Rightarrow> NFCReader \<Rightarrow> NFCReader \<times> event list" where
  "run_calls [] r = (r, [])"
| "run_calls (Start opened envs # cs) r =
     (case start_run opened envs r of
        (r1, evs1) \<Rightarrow> (case run_calls cs r1 of (r2, evs2) \<Rightarrow> (r2, evs1 @ evs2)))"
| "run_calls (Stop # cs) r =
     (case stop ControllingContext r of
        (exc, r1, evs1) \<Rightarrow> (case run_calls cs r1 of (r2, evs2) \<Rightarrow> (r2, evs1 @ evs2)))"

text \<open>Reading a trace: the identities passed to the arrival callback, the removals.\<close>

fun arrivals :: "event list \<Rightarrow> string list" where
  "arrivals [] = []"
| "arrivals (CardCallback uid # evs) = uid # arrivals evs"
| "arrivals (ev # evs) = arrivals evs"

definition removals :: "event list \<Rightarrow> nat" where
  "removals evs = length (filter (\<lambda>ev. ev = CardRemovedCallback) evs)"

text \<open>
  The select command as the specification writes it (section 4.1, step 3):
  \<open>00 A4 04 00 07 F0 00 00 00 01 00 01 00\<close>.
\<close>

definition spec_select_apdu :: bytes where
  "spec_select_apdu =
     [0x00, 0xA4, 0x04, 0x00, 0x07, 0xF0, 0x00, 0x00, 0x00, 0x01, 0x00, 0x01, 0x00]"

subsection \<open>Scenarios of the specification (section 8)\<close>

text \<open>
  Scenario 1: a plain card with hardware identifier \<open>04 A1 B2 C3\<close> that does not support
  activation.
\<close>

definition mifare_card :: target where
  "mifare_card =
     \<lparr> sdd_res = [0x04, 0xA1, 0xB2, 0xC3],
       activation = Inl (PyException ''TagActivationError'') \<rparr>"

text \<open>
  Scenario 2: a phone whose application answers the select command with the given bytes
  (and any other command with \<open>6A 82\<close>); its hardware identifier is \<open>08 12 34 56\<close>.
\<close>

definition hce_tag :: "bytes \<Rightarrow> tag" where
  "hce_tag response =
     \<lparr> tag_type = ''Type4Tag'',
       transceive = (\<lambda>cmd. if cmd = spec_select_apdu then Inr (Some response)
                            else Inr (Some [0x6A, 0x82])) \<rparr>"

definition hce_phone :: "bytes \<Rightarrow> target" where
  "hce_phone response =
     \<lparr> sdd_res = [0x08, 0x12, 0x34, 0x56], activation = Inr (Some (hce_tag response)) \<rparr>"

text \<open>An iteration in which \<^verbatim>\<open>sense\<close> returns and a callback, if called, returns.\<close>

definition sensing :: "remote_target option \<Rightarrow> poll_env" where
  "sensing t =
     \<lparr> sense_result = Inr t, card_callback_raises = None,
       card_removed_callback_raises = None \<rparr>"

text \<open>The same, with callbacks that raise \<^verbatim>\<open>RuntimeError\<close> when called.\<close>

definition sensing_raising :: "remote_target option \<Rightarrow> poll_env" where
  "sensing_raising t =
     \<lparr> sense_result = Inr t,
       card_callback_raises = Some (Exception (PyException ''RuntimeError'')),
       card_removed_callback_raises = Some (Exception (PyException ''RuntimeError'')) \<rparr>"

text \<open>The same, with callbacks that call \<^verbatim>\<open>sys.exit()\<close>, which raises \<^verbatim>\<open>SystemExit\<close>.\<close>

definition sensing_exiting :: "remote_target option \<Rightarrow> poll_env" where
  "sensing_exiting t =
     \<lparr> sense_result = Inr t,
       card_callback_raises = Some (BaseException ''SystemExit''),
       card_removed_callback_raises = Some (BaseException ''SystemExit'') \<rparr>"

text \<open>A reader on the default port with both callbacks registered.\<close>

definition usb_reader :: NFCReader where
  "usb_reader = init ''usb'' (Some Callable) (Some Callable)"

text \<open>That reader after a \<^verbatim>\<open>start\<close> whose connection opened, before its first iteration.\<close>

definition polling_reader :: NFCReader where
  "polling_reader = fst (start_run (Opened (ContactlessFrontend ''usb'')) [] usb_reader)"

section \<open>Properties\<close>

subsection \<open>Auxiliary facts\<close>

lemma fromhex_select_aid:
  "fromhex ''00A4040007F000000001000100'' = Some spec_select_apdu"
  by (simp add: hexval_def spec_select_apdu_def)

lemma fromhex_9000: "fromhex ''9000'' = Some [0x90, 0x00]"
  by (simp add: hexval_def)

lemma upper_digits: "map upper_char ''0123456789abcdef'' = ''0123456789ABCDEF''"
  by code_simp

lemma upper_hexdigit:
  assumes "n < 16"
  shows "upper_char (hexdigit n) = ''0123456789ABCDEF'' ! n"
proof -
  from assms have "upper_char (''0123456789abcdef'' ! n) = map upper_char ''0123456789abcdef'' ! n"
    by (intro nth_map [symmetric]) simp
  then show ?thesis
    by (simp only: upper_digits hexdigit_def)
qed

lemma unat_div16: "unat (b :: 8 word) div 16 < 16"
proof -
  have "unat b < 256" using unsigned_less [of b] by simp
  then show ?thesis by simp
qed

lemma upper_hex_is_uppercase_hex: "upper (hex bs) = uppercase_hex bs"
  by (induction bs)
     (simp_all add: upper_def hex_def uppercase_hex_def hex_byte_def upper_hexdigit unat_div16)

lemma hce_check_type4:
  assumes "activation tgt = Inr (Some tg)" and "tag_type tg = ''Type4Tag''"
  shows "hce_check tgt =
           (Inr (fst (select_app tg spec_select_apdu)), Activate # snd (select_app tg spec_select_apdu))"
  using assms
  by (simp add: hce_check_def fromhex_select_aid del: fromhex.simps split: prod.splits)

lemma select_app_events: "snd (select_app tg apdu) = [Transceive apdu]"
  by (simp add: select_app_def split: sum.splits option.splits)

lemma endswith_two:
  "endswith b [x, y] \<longleftrightarrow> 2 \<le> length b \<and> drop (length b - 2) b = [x, y]"
  by (simp add: endswith_def numeral_2_eq_2)

lemma select_app_result:
  "fst (select_app tg apdu) =
     (case transceive tg apdu of
        Inr (Some response) \<Rightarrow>
          if 2 \<le> length response \<and> drop (length response - 2) response = [0x90, 0x00]
          then Some (uppercase_hex (take (length response - 2) response))
          else None
      | _ \<Rightarrow> None)"
  by (auto simp: select_app_def fromhex_9000 endswith_two strip_last2_def
      upper_hex_is_uppercase_hex simp del: fromhex.simps split: sum.splits option.splits)

lemma extract_uid_fallback:
  assumes "\<forall>custom_uid. fst (hce_check tgt) \<noteq> Inr (Some custom_uid)"
  shows "fst (extract_uid tgt) = Inr (uppercase_hex (sdd_res tgt))"
proof (cases "hce_check tgt")
  case (Pair res evs)
  with assms show ?thesis
    by (auto simp: extract_uid_def Let_def upper_hex_is_uppercase_hex
        split: sum.splits option.splits)
qed

lemma arrivals_append: "arrivals (xs @ ys) = arrivals xs @ arrivals ys"
  by (induction xs rule: arrivals.induct) simp_all

lemma removals_append: "removals (xs @ ys) = removals xs + removals ys"
  by (simp add: removals_def)

lemma hce_check_events:
  "snd (hce_check tgt) = [Activate] \<or> snd (hce_check tgt) = [Activate, Transceive spec_select_apdu]"
  by (auto simp: hce_check_def fromhex_select_aid select_app_events
      simp del: fromhex.simps split: sum.splits option.splits prod.splits
      dest: arg_cong [where f = snd])

lemma extract_uid_events:
  "snd (extract_uid tgt) = [Activate] \<or> snd (extract_uid tgt) = [Activate, Transceive spec_select_apdu]"
  using hce_check_events [of tgt]
  by (cases "hce_check tgt") (auto simp: extract_uid_def Let_def split: sum.splits option.splits)

lemma extract_uid_no_callbacks:
  "arrivals (snd (extract_uid tgt)) = [] \<and> removals (snd (extract_uid tgt)) = 0"
  using extract_uid_events [of tgt] by (auto simp: removals_def)

lemma uppercase_hex_04A1B2C3: "uppercase_hex [0x04, 0xA1, 0xB2, 0xC3] = ''04A1B2C3''"
  by (simp add: uppercase_hex_def)

lemma uppercase_hex_08123456: "uppercase_hex [0x08, 0x12, 0x34, 0x56] = ''08123456''"
  by (simp add: uppercase_hex_def)

lemma uppercase_hex_AABBCCDD: "uppercase_hex [0xAA, 0xBB, 0xCC, 0xDD] = ''AABBCCDD''"
  by (simp add: uppercase_hex_def)

lemma extract_uid_mifare_card: "extract_uid mifare_card = (Inr ''04A1B2C3'', [Activate])"
  by (simp add: extract_uid_def hce_check_def mifare_card_def upper_hex_is_uppercase_hex
      uppercase_hex_04A1B2C3)

lemma extract_uid_remote_events:
  "arrivals (snd (extract_uid_remote h)) = [] \<and> removals (snd (extract_uid_remote h)) = 0"
  using extract_uid_no_callbacks
  by (cases h) (simp_all add: extract_uid_remote_def removals_def)

lemma reader_iteration_no_frontend:
  "clf r = None \<Longrightarrow> reader_iteration env r = (None, r, [])"
  by (simp add: reader_iteration_def iteration_body_def)

lemma iteration_body_target:
  assumes "clf r \<noteq> None" and "sense_result env = Inr (Some h)"
    and "fst (extract_uid_remote h) = Inr uid"
  shows "iteration_body env r =
           (if uid \<noteq> [] \<and> current_uid r \<noteq> Some uid
            then (if card_callback r \<noteq> None then card_callback_raises env else None,
                  r\<lparr>current_uid := Some uid\<rparr>,
                  Sense # snd (extract_uid_remote h)
                    @ (if card_callback r \<noteq> None then [CardCallback uid] else []))
            else (None, r, Sense # snd (extract_uid_remote h)))"
  using assms
  by (cases "extract_uid_remote h")
     (auto simp: iteration_body_def Let_def)

lemma reader_iteration_snd:
  "snd (reader_iteration env r) = snd (iteration_body env r)"
  by (cases "iteration_body env r")
     (auto simp: reader_iteration_def split: option.splits raised.splits)

lemma reader_iteration_fst:
  "fst (reader_iteration env r) =
     (case fst (iteration_body env r) of Some (BaseException b) \<Rightarrow> Some b | _ \<Rightarrow> None)"
  by (cases "iteration_body env r")
     (auto simp: reader_iteration_def split: option.splits raised.splits)

lemma reader_iteration_target:
  assumes "clf r \<noteq> None" and "sense_result env = Inr (Some h)"
    and "fst (extract_uid_remote h) = Inr uid"
  shows "snd (reader_iteration env r) =
           (if uid \<noteq> [] \<and> current_uid r \<noteq> Some uid
            then (r\<lparr>current_uid := Some uid\<rparr>,
                  Sense # snd (extract_uid_remote h)
                    @ (if card_callback r \<noteq> None then [CardCallback uid] else []))
            else (r, Sense # snd (extract_uid_remote h)))"
  by (simp add: reader_iteration_snd iteration_body_target [OF assms])

lemma iteration_body_absent:
  assumes "clf r \<noteq> None" and "sense_result env = Inr None"
  shows "iteration_body env r =
           (if current_uid r = None then (None, r, [Sense])
            else if card_removed_callback r = None then (None, r\<lparr>current_uid := None\<rparr>, [Sense])
            else if card_removed_callback_raises env = None
                 then (None, r\<lparr>current_uid := None\<rparr>, [Sense, CardRemovedCallback])
                 else (card_removed_callback_raises env, r, [Sense, CardRemovedCallback]))"
  using assms
  by (auto simp: iteration_body_def split: option.splits)

lemma reader_iteration_absent:
  assumes "clf r \<noteq> None" and "sense_result env = Inr None"
  shows "snd (reader_iteration env r) =
           (if current_uid r = None then (r, [Sense])
            else if card_removed_callback r = None then (r\<lparr>current_uid := None\<rparr>, [Sense])
            else if card_removed_callback_raises env = None
                 then (r\<lparr>current_uid := None\<rparr>, [Sense, CardRemovedCallback])
                 else (r, [Sense, CardRemovedCallback]))"
  by (simp add: reader_iteration_snd iteration_body_absent [OF assms])



text \<open>The loop, unfolded once, in terms of the projections of one iteration.\<close>

lemma while_running_step:
  "while_running (env # envs) r =
     (if running r
      then (if fst (reader_iteration env r) \<noteq> None
            then snd (reader_iteration env r)
            else (fst (while_running envs (fst (snd (reader_iteration env r)))),
                  snd (snd (reader_iteration env r))
                    @ snd (while_running envs (fst (snd (reader_iteration env r))))))
      else (r, []))"
  by (cases "reader_iteration env r") (auto split: option.splits prod.splits)

lemma while_running_same_identity:
  assumes "current_uid r = Some uid"
    and "\<forall>e \<in> set envs. \<exists>h. sense_result e = Inr (Some h) \<and> fst (extract_uid_remote h) = Inr uid"
  shows "arrivals (snd (while_running envs r)) = []
         \<and> current_uid (fst (while_running envs r)) = Some uid"
  using assms
proof (induction envs arbitrary: r)
  case Nil
  then show ?case by simp
next
  case (Cons env envs)
  from Cons.prems obtain h where h: "sense_result env = Inr (Some h)"
    "fst (extract_uid_remote h) = Inr uid"
    by auto
  have step: "snd (reader_iteration env r) = (r, snd (snd (reader_iteration env r)))
              \<and> arrivals (snd (snd (reader_iteration env r))) = []"
  proof (cases "clf r")
    case None
    then show ?thesis by (simp add: reader_iteration_no_frontend)
  next
    case (Some c)
    then have "clf r \<noteq> None" by simp
    from reader_iteration_target [OF this h] Cons.prems(1) show ?thesis
      by (simp add: extract_uid_remote_events)
  qed
  then have r1: "fst (snd (reader_iteration env r)) = r"
    by (metis fst_conv)
  have rest: "arrivals (snd (while_running envs r)) = []
              \<and> current_uid (fst (while_running envs r)) = Some uid"
    using Cons.IH [of r] Cons.prems by simp
  show ?case
    unfolding while_running_step using step r1 rest Cons.prems(1)
    by (auto simp: arrivals_append)
qed


lemma polling_reader_eq:
  "polling_reader =
     \<lparr> port = ''usb'', card_callback = Some Callable, card_removed_callback = Some Callable,
       clf = Some (ContactlessFrontend ''usb''), running = True, reader_thread = Some Thread,
       current_uid = None \<rparr>"
  by (simp add: polling_reader_def start_run_def start_def reader_loop_def connect_def
      usb_reader_def init_def)

lemma extract_uid_remote_mifare_card:
  "extract_uid_remote (WithSddRes mifare_card) = (Inr ''04A1B2C3'', [Activate])"
  by (simp add: extract_uid_remote_def extract_uid_mifare_card)

lemma iteration_body_mifare_card:
  assumes "clf r \<noteq> None" and "sense_result env = Inr (Some (WithSddRes mifare_card))"
  shows "iteration_body env r =
     (if current_uid r \<noteq> Some ''04A1B2C3''
      then (if card_callback r \<noteq> None then card_callback_raises env else None,
            r\<lparr>current_uid := Some ''04A1B2C3''\<rparr>,
            [Sense, Activate] @ (if card_callback r \<noteq> None then [CardCallback ''04A1B2C3''] else []))
      else (None, r, [Sense, Activate]))"
  using iteration_body_target [OF assms, of "''04A1B2C3''"]
  by (simp add: extract_uid_remote_mifare_card)

lemma iteration_mifare_card:
  "clf r \<noteq> None \<Longrightarrow>
   reader_iteration (sensing (Some (WithSddRes mifare_card))) r =
     (if current_uid r \<noteq> Some ''04A1B2C3''
      then (None, r\<lparr>current_uid := Some ''04A1B2C3''\<rparr>,
            [Sense, Activate] @ (if card_callback r \<noteq> None then [CardCallback ''04A1B2C3''] else []))
      else (None, r, [Sense, Activate]))"
  using iteration_body_mifare_card [of r "sensing (Some (WithSddRes mifare_card))"]
  by (simp add: sensing_def reader_iteration_def)

lemma iteration_absent_eval:
  assumes "clf r \<noteq> None" and "card_removed_callback r \<noteq> None" and "current_uid r \<noteq> None"
  shows "reader_iteration (sensing None) r
           = (None, r\<lparr>current_uid := None\<rparr>, [Sense, CardRemovedCallback])"
    and "reader_iteration (sensing_raising None) r = (None, r, [Sense, CardRemovedCallback])"
    and "reader_iteration (sensing_exiting None) r
           = (Some ''SystemExit'', r, [Sense, CardRemovedCallback])"
  using assms iteration_body_absent [of r "sensing None"]
    iteration_body_absent [of r "sensing_raising None"]
    iteration_body_absent [of r "sensing_exiting None"]
  by (simp_all add: sensing_def sensing_raising_def sensing_exiting_def reader_iteration_def)





lemma stop_off_polling_thread:
  assumes "who = ControllingContext \<or> reader_thread r = None"
  shows "stop who r =
           (None, r\<lparr>running := False, clf := None\<rparr>, if clf r \<noteq> None then [Close] else [])"
  using assms
  by (cases r) (auto simp: stop_def join_def disconnect_def close_def Let_def split: option.splits)

lemma stop_on_polling_thread:
  assumes "who = PollingThread" and "reader_thread r \<noteq> None"
  shows "stop who r = (Some (PyException ''RuntimeError''), r\<lparr>running := False\<rparr>, [])"
  using assms by (auto simp: stop_def join_def Let_def)



subsection \<open>The claims of the specification\<close>

text \<open>
  Claim C1 (resolver priority). For every target whose activation succeeds with a tag of
  type \<open>Type4Tag\<close>, the resolver makes exactly two calls: the activation, then one
  \<^verbatim>\<open>transceive\<close> of the 13 bytes \<open>00 A4 04 00 07 F0 00 00 00 01 00 01 00\<close>. If the
  answer has at least two bytes and its last two are \<open>90 00\<close>, the resolver returns the
  answer without these two bytes, in uppercase hexadecimal. The hardware identifier
  \<open>sdd_res tgt\<close> is arbitrary.
\<close>

theorem select_application_priority:
  assumes "activation tgt = Inr (Some tg)" and "tag_type tg = ''Type4Tag''"
  shows "snd (extract_uid tgt) =
           [Activate, Transceive [0x00, 0xA4, 0x04, 0x00, 0x07, 0xF0, 0x00, 0x00, 0x00, 0x01, 0x00, 0x01, 0x00]]
         \<and> (\<forall>response.
               transceive tg [0x00, 0xA4, 0x04, 0x00, 0x07, 0xF0, 0x00, 0x00, 0x00, 0x01, 0x00, 0x01, 0x00]
                 = Inr (Some response)
               \<and> 2 \<le> length response
               \<and> drop (length response - 2) response = [0x90, 0x00]
               \<longrightarrow> fst (extract_uid tgt) = Inr (uppercase_hex (take (length response - 2) response)))"
proof -
  have ev: "snd (extract_uid tgt) = Activate # snd (select_app tg spec_select_apdu)"
    using hce_check_type4 [OF assms]
    by (simp add: extract_uid_def Let_def split: option.splits)
  have res: "fst (extract_uid tgt) = Inr (uppercase_hex (take (length response - 2) response))"
    if "transceive tg spec_select_apdu = Inr (Some response)" "2 \<le> length response"
       "drop (length response - 2) response = [0x90, 0x00]" for response
    using hce_check_type4 [OF assms] that
    by (simp add: extract_uid_def Let_def select_app_result)
  show ?thesis
    using ev res by (simp add: select_app_events spec_select_apdu_def)
qed

theorem select_application_priority_witness:
  "extract_uid (hce_phone [0xAA, 0xBB, 0xCC, 0xDD, 0x90, 0x00])
     = (Inr ''AABBCCDD'', [Activate, Transceive spec_select_apdu])"
proof -
  let ?resp = "[0xAA, 0xBB, 0xCC, 0xDD, 0x90, 0x00] :: bytes"
  have a: "activation (hce_phone ?resp) = Inr (Some (hce_tag ?resp))"
    by (simp add: hce_phone_def)
  have t: "tag_type (hce_tag ?resp) = ''Type4Tag''"
    by (simp add: hce_tag_def)
  have r: "transceive (hce_tag ?resp) spec_select_apdu = Inr (Some ?resp)"
    by (simp add: hce_tag_def)
  from select_application_priority [OF a t] r show ?thesis
    by (cases "extract_uid (hce_phone ?resp)")
       (simp add: spec_select_apdu_def uppercase_hex_AABBCCDD)
qed

text \<open>
  Claim C2 (resolver fallback). If the activation raises, or returns no tag, or returns a
  tag that is not of type \<open>Type4Tag\<close>, or the \<^verbatim>\<open>transceive\<close> of the select command raises,
  or returns \<^verbatim>\<open>None\<close>, or returns bytes that do not end with \<open>90 00\<close>, then the resolver
  returns (\<open>Inr\<close>: nothing is raised to the caller) the hardware identifier of the handle
  in uppercase hexadecimal.
\<close>

theorem hardware_fallback:
  assumes "(\<exists>e. activation tgt = Inl e)
         \<or> activation tgt = Inr None
         \<or> (\<exists>tg. activation tgt = Inr (Some tg)
               \<and> (tag_type tg \<noteq> ''Type4Tag''
                  \<or> (\<exists>e. transceive tg spec_select_apdu = Inl e)
                  \<or> transceive tg spec_select_apdu = Inr None
                  \<or> (\<exists>response. transceive tg spec_select_apdu = Inr (Some response)
                        \<and> \<not> (2 \<le> length response
                               \<and> drop (length response - 2) response = [0x90, 0x00]))))"
  shows "\<exists>evs. extract_uid tgt = (Inr (uppercase_hex (sdd_res tgt)), evs)"
proof -
  have "fst (hce_check tgt) \<noteq> Inr (Some custom_uid)" for custom_uid
  proof (cases "activation tgt")
    case (Inl e)
    then show ?thesis by (simp add: hce_check_def)
  next
    case (Inr otg)
    show ?thesis
    proof (cases otg)
      case None
      with Inr show ?thesis by (simp add: hce_check_def)
    next
      case (Some tg)
      show ?thesis
      proof (cases "tag_type tg = ''Type4Tag''")
        case False
        with Inr Some show ?thesis by (simp add: hce_check_def)
      next
        case True
        with Inr Some assms have
          "(\<exists>e. transceive tg spec_select_apdu = Inl e)
           \<or> transceive tg spec_select_apdu = Inr None
           \<or> (\<exists>response. transceive tg spec_select_apdu = Inr (Some response)
                 \<and> \<not> (2 \<le> length response
                        \<and> drop (length response - 2) response = [0x90, 0x00]))"
          by auto
        then have "fst (select_app tg spec_select_apdu) = None"
          by (auto simp: select_app_result)
        with Inr Some True show ?thesis
          by (simp add: hce_check_type4)
      qed
    qed
  qed
  then have "fst (extract_uid tgt) = Inr (uppercase_hex (sdd_res tgt))"
    by (intro extract_uid_fallback) simp
  then show ?thesis by (cases "extract_uid tgt") simp
qed

theorem hardware_fallback_witness:
  "extract_uid mifare_card = (Inr ''04A1B2C3'', [Activate])
   \<and> fst (extract_uid (hce_phone [0x6A, 0x82])) = Inr ''08123456''"
proof -
  have "\<exists>e. activation mifare_card = Inl e" by (simp add: mifare_card_def)
  then have "\<exists>evs. extract_uid mifare_card = (Inr (uppercase_hex (sdd_res mifare_card)), evs)"
    by (intro hardware_fallback) simp
  then have one: "fst (extract_uid mifare_card) = Inr ''04A1B2C3''"
    by (auto simp: mifare_card_def uppercase_hex_04A1B2C3)
  have ev: "snd (extract_uid mifare_card) = [Activate]"
    by (simp add: extract_uid_def hce_check_def mifare_card_def)
  let ?p = "hce_phone [0x6A, 0x82]"
  have "activation ?p = Inr (Some (hce_tag [0x6A, 0x82]))
        \<and> transceive (hce_tag [0x6A, 0x82]) spec_select_apdu = Inr (Some [0x6A, 0x82])
        \<and> \<not> (2 \<le> length [0x6A :: 8 word, 0x82]
              \<and> drop (length [0x6A :: 8 word, 0x82] - 2) [0x6A :: 8 word, 0x82] = [0x90, 0x00])"
    by (simp add: hce_phone_def hce_tag_def)
  then have "\<exists>evs. extract_uid ?p = (Inr (uppercase_hex (sdd_res ?p)), evs)"
    by (intro hardware_fallback) blast
  then have two: "fst (extract_uid ?p) = Inr ''08123456''"
    by (auto simp: hce_phone_def uppercase_hex_08123456)
  from one ev two show ?thesis by (cases "extract_uid mifare_card") simp
qed

text \<open>
  Claim C3 (arrival edge and dedup). In an iteration that senses a target (so a frontend is
  open) whose identity is resolved, with an arrival callback registered, the callback is
  called if and only if the resolved identity is not empty and differs from
  \<open>current_uid\<close>, once and with that identity; in that case \<open>current_uid\<close> becomes that
  identity, and otherwise it keeps its value. If the following iterations, however many,
  sense targets that resolve to the same identity, the whole run calls the arrival callback
  exactly once, whatever the callback does.
\<close>

theorem arrival_edge_dedup:
  assumes "clf r \<noteq> None" and "card_callback r \<noteq> None"
    and "sense_result env = Inr (Some h)" and "fst (extract_uid_remote h) = Inr uid"
  shows "arrivals (snd (snd (reader_iteration env r)))
           = (if uid \<noteq> [] \<and> current_uid r \<noteq> Some uid then [uid] else [])
       \<and> current_uid (fst (snd (reader_iteration env r)))
           = (if uid \<noteq> [] \<and> current_uid r \<noteq> Some uid then Some uid else current_uid r)
       \<and> (\<forall>envs. running r \<and> uid \<noteq> [] \<and> current_uid r \<noteq> Some uid
              \<and> (\<forall>e \<in> set envs. \<exists>t. sense_result e = Inr (Some t)
                                      \<and> fst (extract_uid_remote t) = Inr uid)
            \<longrightarrow> arrivals (snd (while_running (env # envs) r)) = [uid])"
proof -
  note it = reader_iteration_target [OF assms(1,3,4)]
  have one: "arrivals (snd (snd (reader_iteration env r)))
           = (if uid \<noteq> [] \<and> current_uid r \<noteq> Some uid then [uid] else [])"
    using it assms(2) by (simp add: arrivals_append extract_uid_remote_events)
  have two: "current_uid (fst (snd (reader_iteration env r)))
           = (if uid \<noteq> [] \<and> current_uid r \<noteq> Some uid then Some uid else current_uid r)"
    using it by simp
  have three: "arrivals (snd (while_running (env # envs) r)) = [uid]"
    if "running r" "uid \<noteq> []" "current_uid r \<noteq> Some uid"
       "\<forall>e \<in> set envs. \<exists>t. sense_result e = Inr (Some t) \<and> fst (extract_uid_remote t) = Inr uid"
    for envs
  proof -
    let ?r1 = "fst (snd (reader_iteration env r))"
    from one two that have first: "arrivals (snd (snd (reader_iteration env r))) = [uid]"
      and cur: "current_uid ?r1 = Some uid" by simp_all
    from while_running_same_identity [OF cur that(4)]
    have "arrivals (snd (while_running envs ?r1)) = []" by simp
    with first that(1) show ?thesis
      unfolding while_running_step by (simp add: arrivals_append)
  qed
  from one two three show ?thesis by blast
qed

theorem arrival_edge_dedup_witness:
  "arrivals (snd (snd (reader_iteration (sensing (Some (WithSddRes mifare_card))) polling_reader)))
     = [''04A1B2C3'']
   \<and> current_uid (fst (snd (reader_iteration (sensing (Some (WithSddRes mifare_card)))
         polling_reader))) = Some ''04A1B2C3''
   \<and> arrivals (snd (while_running
         [sensing (Some (WithSddRes mifare_card)), sensing (Some (WithSddRes mifare_card)),
          sensing (Some (WithSddRes mifare_card))]
         polling_reader)) = [''04A1B2C3'']"
proof -
  let ?env = "sensing (Some (WithSddRes mifare_card))"
  have h1: "clf polling_reader \<noteq> None" and h2: "card_callback polling_reader \<noteq> None"
    and run: "running polling_reader" and cur: "current_uid polling_reader = None"
    by (simp_all add: polling_reader_eq)
  have h3: "sense_result ?env = Inr (Some (WithSddRes mifare_card))"
    by (simp add: sensing_def)
  have h4: "fst (extract_uid_remote (WithSddRes mifare_card)) = Inr ''04A1B2C3''"
    by (simp add: extract_uid_remote_mifare_card)
  have rest: "\<forall>e \<in> set [?env, ?env].
                \<exists>t. sense_result e = Inr (Some t) \<and> fst (extract_uid_remote t) = Inr ''04A1B2C3''"
    using h3 h4 by simp
  note edge = arrival_edge_dedup [OF h1 h2 h3 h4]
  from edge cur have one:
    "arrivals (snd (snd (reader_iteration ?env polling_reader))) = [''04A1B2C3'']
     \<and> current_uid (fst (snd (reader_iteration ?env polling_reader))) = Some ''04A1B2C3''"
    by simp
  from edge [THEN conjunct2, THEN conjunct2, THEN spec, of "[?env, ?env]"] run cur rest
  have "arrivals (snd (while_running [?env, ?env, ?env] polling_reader)) = [''04A1B2C3'']"
    by (simp del: while_running.simps)
  with one show ?thesis by (simp del: while_running.simps)
qed

text \<open>
  Claim C4 (removal edge), evaluated on the code. The removal callback is called at line 118
  and \<open>current_uid\<close> is cleared after it, at line 119. When the callback raises, the
  handler of the iteration catches the exception with the identity still recorded, and the
  next iteration that senses no target calls the callback again: after a card was sensed,
  two iterations that sense nothing call the removal callback twice and leave the identity
  in place. The arrival path (lines 108 to 110) records the identity before it calls its
  callback: with an arrival callback that raises, two iterations that sense the same card
  call it once.
\<close>

theorem removal_refired_when_callback_raises:
  "removals (snd (while_running
       [sensing (Some (WithSddRes mifare_card)), sensing_raising None, sensing_raising None]
       polling_reader)) = 2
   \<and> current_uid (fst (while_running
       [sensing (Some (WithSddRes mifare_card)), sensing_raising None, sensing_raising None]
       polling_reader)) = Some ''04A1B2C3''
   \<and> arrivals (snd (while_running
       [sensing_raising (Some (WithSddRes mifare_card)), sensing (Some (WithSddRes mifare_card))]
       polling_reader)) = [''04A1B2C3'']"
proof -
  let ?r = "polling_reader\<lparr>current_uid := Some ''04A1B2C3''\<rparr>"
  have s1: "reader_iteration (sensing (Some (WithSddRes mifare_card))) polling_reader
              = (None, ?r, [Sense, Activate, CardCallback ''04A1B2C3''])"
    by (simp add: iteration_mifare_card polling_reader_eq)
  have s2: "reader_iteration (sensing_raising None) ?r = (None, ?r, [Sense, CardRemovedCallback])"
    using iteration_absent_eval(2) [of ?r] by (simp add: polling_reader_eq)
  have a1: "reader_iteration (sensing_raising (Some (WithSddRes mifare_card))) polling_reader
              = (None, ?r, [Sense, Activate, CardCallback ''04A1B2C3''])"
    using iteration_body_mifare_card [of polling_reader
        "sensing_raising (Some (WithSddRes mifare_card))"]
    by (simp add: sensing_raising_def polling_reader_eq reader_iteration_def)
  have a2: "reader_iteration (sensing (Some (WithSddRes mifare_card))) ?r
              = (None, ?r, [Sense, Activate])"
    by (simp add: iteration_mifare_card polling_reader_eq)
  have run: "running polling_reader" "running ?r" by (simp_all add: polling_reader_eq)
  show ?thesis
    by (simp add: s1 s2 a1 a2 run removals_def)
qed




text \<open>
  Claim C6 (restart after a failed connection), evaluated on the code. A \<^verbatim>\<open>start\<close> on a
  fresh reader whose connection fails to open makes one attempt to open the device and
  leaves the reader with \<open>running = True\<close> (line 96 returns without clearing the flag) and no
  frontend, so \<open>is_connected\<close> is false. A second \<^verbatim>\<open>start\<close> then finds \<open>running\<close>
  set and starts no thread: no further attempt to open the device is made, even though it
  would now succeed and a card is in the field.
\<close>

theorem start_after_connect_failure_is_noop:
  "start_run (OpenRaises (PyException ''IOError'')) [] usb_reader
     = (usb_reader\<lparr>running := True, reader_thread := Some Thread\<rparr>, [Open ''usb''])
   \<and> start (usb_reader\<lparr>running := True, reader_thread := Some Thread\<rparr>)
     = (usb_reader\<lparr>running := True, reader_thread := Some Thread\<rparr>, False)
   \<and> run_calls [Start (OpenRaises (PyException ''IOError'')) [],
                 Start (Opened (ContactlessFrontend ''usb''))
                   [sensing (Some (WithSddRes mifare_card))]]
        usb_reader
     = (usb_reader\<lparr>running := True, reader_thread := Some Thread\<rparr>, [Open ''usb''])
   \<and> \<not> is_connected (usb_reader\<lparr>running := True, reader_thread := Some Thread\<rparr>)"
  by (simp add: start_run_def start_def reader_loop_def connect_def usb_reader_def init_def
      is_connected_def)



text \<open>
  Claim C8 (stop closes, idempotently), as the code has it. After any \<^verbatim>\<open>stop\<close>,
  \<open>is_connected\<close> is false. When \<^verbatim>\<open>stop\<close> is called from the controlling context (or
  no thread was ever started), it raises nothing and leaves the frontend handle
  \<^verbatim>\<open>None\<close>, an open frontend being closed by one call of \<^verbatim>\<open>close\<close>; a second such
  \<^verbatim>\<open>stop\<close> raises nothing, calls nothing, changes nothing, and leaves the handle
  \<^verbatim>\<open>None\<close> and \<open>is_connected\<close> false. \<^verbatim>\<open>disconnect\<close> on a reader with no
  frontend calls nothing and changes nothing.

  For a \<^verbatim>\<open>stop\<close> called on the polling thread (from a consumer callback) the claim does
  not hold: \<^verbatim>\<open>join\<close> at line 89 raises \<^verbatim>\<open>RuntimeError\<close> before \<^verbatim>\<open>disconnect\<close> at
  line 90, and the frontend stays open (the last theorem of this claim).
\<close>

theorem stop_closes_idempotent:
  "\<not> is_connected (fst (snd (stop who r)))
   \<and> (who = ControllingContext \<or> reader_thread r = None \<longrightarrow>
        fst (stop who r) = None
        \<and> clf (fst (snd (stop who r))) = None
        \<and> (clf r \<noteq> None \<longrightarrow> snd (snd (stop who r)) = [Close])
        \<and> stop who (fst (snd (stop who r))) = (None, fst (snd (stop who r)), [])
        \<and> clf (fst (snd (stop who (fst (snd (stop who r)))))) = None
        \<and> \<not> is_connected (fst (snd (stop who (fst (snd (stop who r)))))))
   \<and> (clf r = None \<longrightarrow> disconnect r = (r, []))"
proof -
  have idle: "\<not> is_connected (fst (snd (stop who r)))"
  proof (cases "who = PollingThread \<and> reader_thread r \<noteq> None")
    case True
    then show ?thesis by (simp add: stop_on_polling_thread is_connected_def)
  next
    case False
    then have "who = ControllingContext \<or> reader_thread r = None" by (cases who) auto
    then show ?thesis by (simp add: stop_off_polling_thread is_connected_def)
  qed
  have off: "fst (stop who r) = None
        \<and> clf (fst (snd (stop who r))) = None
        \<and> (clf r \<noteq> None \<longrightarrow> snd (snd (stop who r)) = [Close])
        \<and> stop who (fst (snd (stop who r))) = (None, fst (snd (stop who r)), [])
        \<and> clf (fst (snd (stop who (fst (snd (stop who r)))))) = None
        \<and> \<not> is_connected (fst (snd (stop who (fst (snd (stop who r))))))"
    if h: "who = ControllingContext \<or> reader_thread r = None"
  proof -
    let ?r1 = "r\<lparr>running := False, clf := None\<rparr>"
    have first: "stop who r = (None, ?r1, if clf r \<noteq> None then [Close] else [])"
      by (rule stop_off_polling_thread [OF h])
    from h have "who = ControllingContext \<or> reader_thread ?r1 = None" by simp
    from stop_off_polling_thread [OF this] have again: "stop who ?r1 = (None, ?r1, [])"
      by simp
    from first again show ?thesis by (simp add: is_connected_def)
  qed
  have dis: "disconnect r = (r, [])" if "clf r = None"
    using that by (simp add: disconnect_def)
  from idle off dis show ?thesis by blast
qed

theorem stop_closes_idempotent_witness:
  "stop ControllingContext polling_reader
     = (None, polling_reader\<lparr>running := False, clf := None\<rparr>, [Close])
   \<and> stop ControllingContext (polling_reader\<lparr>running := False, clf := None\<rparr>)
     = (None, polling_reader\<lparr>running := False, clf := None\<rparr>, [])
   \<and> \<not> is_connected (polling_reader\<lparr>running := False, clf := None\<rparr>)
   \<and> disconnect usb_reader = (usb_reader, [])"
proof -
  have c: "clf polling_reader \<noteq> None" "clf usb_reader = None"
    by (simp_all add: polling_reader_eq usb_reader_def init_def)
  have st: "fst (snd (stop ControllingContext polling_reader))
              = polling_reader\<lparr>running := False, clf := None\<rparr>"
    by (simp add: stop_off_polling_thread)
  note w = stop_closes_idempotent [of ControllingContext polling_reader]
  from w c(1) st have one: "stop ControllingContext polling_reader
     = (None, polling_reader\<lparr>running := False, clf := None\<rparr>, [Close])"
    by (cases "stop ControllingContext polling_reader") simp
  from w st have two: "stop ControllingContext (polling_reader\<lparr>running := False, clf := None\<rparr>)
     = (None, polling_reader\<lparr>running := False, clf := None\<rparr>, [])
     \<and> \<not> is_connected (polling_reader\<lparr>running := False, clf := None\<rparr>)"
    by simp
  from stop_closes_idempotent [of ControllingContext usb_reader] c(2)
  have three: "disconnect usb_reader = (usb_reader, [])" by simp
  from one two three show ?thesis by simp
qed

theorem stop_on_polling_thread_counterexample:
  "stop PollingThread polling_reader
     = (Some (PyException ''RuntimeError''), polling_reader\<lparr>running := False\<rparr>, [])
   \<and> clf (polling_reader\<lparr>running := False\<rparr>) = Some (ContactlessFrontend ''usb'')"
  by (simp add: stop_def join_def polling_reader_eq)

text \<open>
  Claim C9 (an answer of exactly \<open>90 00\<close>). If the target activates with a tag of type
  \<open>Type4Tag\<close> that answers the select command with the two bytes \<open>90 00\<close>, the resolver
  returns the empty string, which differs from the hardware identifier in hexadecimal
  whenever that identifier has a byte; and the iteration that senses this target calls no
  arrival callback, ends normally, and leaves the reader, \<open>current_uid\<close> included, as it
  was.
\<close>

theorem bare_status_word_is_empty_identity:
  assumes "activation tgt = Inr (Some tg)" and "tag_type tg = ''Type4Tag''"
    and "transceive tg spec_select_apdu = Inr (Some [0x90, 0x00])"
    and "sense_result env = Inr (Some (WithSddRes tgt))"
  shows "fst (extract_uid tgt) = Inr []
       \<and> (sdd_res tgt \<noteq> [] \<longrightarrow> fst (extract_uid tgt) \<noteq> Inr (uppercase_hex (sdd_res tgt)))
       \<and> arrivals (snd (snd (reader_iteration env r))) = []
       \<and> fst (snd (reader_iteration env r)) = r
       \<and> fst (reader_iteration env r) = None"
proof -
  have "fst (select_app tg spec_select_apdu) = Some (uppercase_hex [])"
    using assms(3) by (simp add: select_app_result)
  then have uid: "fst (extract_uid tgt) = Inr []"
    using hce_check_type4 [OF assms(1,2)]
    by (simp add: extract_uid_def Let_def uppercase_hex_def)
  then have uid': "fst (extract_uid_remote (WithSddRes tgt)) = Inr []"
    by (simp add: extract_uid_remote_def)
  have hw: "uppercase_hex (sdd_res tgt) \<noteq> []" if "sdd_res tgt \<noteq> []"
    using that by (cases "sdd_res tgt") (simp_all add: uppercase_hex_def)
  have it: "arrivals (snd (snd (reader_iteration env r))) = []
            \<and> fst (snd (reader_iteration env r)) = r \<and> fst (reader_iteration env r) = None"
  proof (cases "clf r")
    case None
    then show ?thesis by (simp add: reader_iteration_no_frontend)
  next
    case (Some c)
    then have c: "clf r \<noteq> None" by simp
    from reader_iteration_target [OF c assms(4) uid'] iteration_body_target [OF c assms(4) uid']
    show ?thesis
      by (simp add: extract_uid_remote_events reader_iteration_fst)
  qed
  from uid hw it show ?thesis by auto
qed

theorem bare_status_word_is_empty_identity_witness:
  "fst (extract_uid (hce_phone [0x90, 0x00])) = Inr []
   \<and> fst (extract_uid (hce_phone [0x90, 0x00])) \<noteq> Inr ''08123456''
   \<and> reader_iteration (sensing (Some (WithSddRes (hce_phone [0x90, 0x00])))) polling_reader
       = (None, polling_reader, [Sense, Activate, Transceive spec_select_apdu])"
proof -
  let ?p = "hce_phone [0x90, 0x00]"
  have a: "activation ?p = Inr (Some (hce_tag [0x90, 0x00]))" by (simp add: hce_phone_def)
  have t: "tag_type (hce_tag [0x90, 0x00]) = ''Type4Tag''" by (simp add: hce_tag_def)
  have x: "transceive (hce_tag [0x90, 0x00]) spec_select_apdu = Inr (Some [0x90, 0x00])"
    by (simp add: hce_tag_def)
  have s: "sense_result (sensing (Some (WithSddRes ?p))) = Inr (Some (WithSddRes ?p))"
    by (simp add: sensing_def)
  note w = bare_status_word_is_empty_identity [OF a t x s, of polling_reader]
  have hw: "sdd_res ?p \<noteq> []" "uppercase_hex (sdd_res ?p) = ''08123456''"
    by (simp_all add: hce_phone_def uppercase_hex_08123456)
  have ev: "snd (extract_uid_remote (WithSddRes ?p)) = [Activate, Transceive spec_select_apdu]"
    using hce_check_type4 [OF a t]
    by (simp add: extract_uid_remote_def extract_uid_def Let_def select_app_events
        split: option.splits)
  have "clf polling_reader \<noteq> None" by (simp add: polling_reader_eq)
  from reader_iteration_target [OF this s, of "[]"] w ev
  have "snd (snd (reader_iteration (sensing (Some (WithSddRes ?p))) polling_reader))
          = [Sense, Activate, Transceive spec_select_apdu]"
    by (simp add: extract_uid_remote_def)
  with w hw show ?thesis
    by (cases "reader_iteration (sensing (Some (WithSddRes ?p))) polling_reader") simp
qed

text \<open>
  Claim C10 (the identity is recorded before the callback runs), as the code has it. In a
  running loop, when an iteration senses a target whose identity is new and the arrival
  callback raises, the body of the iteration ends with what was raised, after the call,
  with \<open>current_uid\<close> already set to the identity. If an \<^verbatim>\<open>Exception\<close> was raised, the
  handler of the iteration catches it and the loop goes on with the next iterations.
  Whatever was raised, while the iterations of the run sense targets that resolve to the
  same identity, the arrival callback is not called again and \<open>current_uid\<close> keeps the
  identity.

  The claim without the condition on what is raised does not hold: line 120 is
  \<^verbatim>\<open>except Exception\<close>, so a callback that raises \<^verbatim>\<open>SystemExit\<close> is not caught, and
  the loop ends with that iteration (the last theorem of this claim).
\<close>

theorem arrival_recorded_before_callback:
  assumes "running r" and "clf r \<noteq> None" and "card_callback r \<noteq> None"
    and "sense_result env = Inr (Some h)" and "fst (extract_uid_remote h) = Inr uid"
    and "uid \<noteq> []" and "current_uid r \<noteq> Some uid"
    and "card_callback_raises env = Some x"
    and "\<forall>e' \<in> set envs. \<exists>t. sense_result e' = Inr (Some t)
                               \<and> fst (extract_uid_remote t) = Inr uid"
  shows "iteration_body env r =
           (Some x, r\<lparr>current_uid := Some uid\<rparr>,
            Sense # snd (extract_uid_remote h) @ [CardCallback uid])
       \<and> ((\<exists>e. x = Exception e) \<longrightarrow>
            reader_iteration env r =
              (None, r\<lparr>current_uid := Some uid\<rparr>,
               Sense # snd (extract_uid_remote h) @ [CardCallback uid])
            \<and> while_running (env # envs) r =
              (fst (while_running envs (r\<lparr>current_uid := Some uid\<rparr>)),
               Sense # snd (extract_uid_remote h) @ [CardCallback uid]
                 @ snd (while_running envs (r\<lparr>current_uid := Some uid\<rparr>))))
       \<and> arrivals (snd (while_running (env # envs) r)) = [uid]
       \<and> current_uid (fst (while_running (env # envs) r)) = Some uid"
proof -
  let ?r' = "r\<lparr>current_uid := Some uid\<rparr>"
  let ?evs = "Sense # snd (extract_uid_remote h) @ [CardCallback uid]"
  have body: "iteration_body env r = (Some x, ?r', ?evs)"
    using iteration_body_target [OF assms(2,4,5)] assms(3,6,7,8) by simp
  have caught: "reader_iteration env r = (None, ?r', ?evs)" if "x = Exception e" for e
    using body that by (simp add: reader_iteration_def)
  have "current_uid ?r' = Some uid" by simp
  note later = while_running_same_identity [OF this assms(9)]
  have goes_on: "while_running (env # envs) r =
      (fst (while_running envs ?r'), ?evs @ snd (while_running envs ?r'))"
    if "x = Exception e" for e
    using caught [OF that] assms(1) by (simp split: prod.splits)
  have first: "arrivals ?evs = [uid]"
    by (simp add: arrivals_append extract_uid_remote_events)
  have whole: "arrivals (snd (while_running (env # envs) r)) = [uid]
               \<and> current_uid (fst (while_running (env # envs) r)) = Some uid"
  proof (cases x)
    case (Exception e)
    from goes_on [OF this] first later show ?thesis
      by (simp add: arrivals_append del: while_running.simps)
  next
    case (BaseException b)
    with body have "reader_iteration env r = (Some b, ?r', ?evs)"
      by (simp add: reader_iteration_def)
    with assms(1) first show ?thesis by simp
  qed
  from body caught goes_on whole show ?thesis
    by (auto simp del: while_running.simps)
qed

theorem arrival_recorded_before_callback_witness:
  "iteration_body (sensing_raising (Some (WithSddRes mifare_card))) polling_reader
     = (Some (Exception (PyException ''RuntimeError'')),
        polling_reader\<lparr>current_uid := Some ''04A1B2C3''\<rparr>,
        [Sense, Activate, CardCallback ''04A1B2C3''])
   \<and> reader_iteration (sensing_raising (Some (WithSddRes mifare_card))) polling_reader
     = (None, polling_reader\<lparr>current_uid := Some ''04A1B2C3''\<rparr>,
        [Sense, Activate, CardCallback ''04A1B2C3''])
   \<and> arrivals (snd (while_running
        [sensing_raising (Some (WithSddRes mifare_card)), sensing (Some (WithSddRes mifare_card)),
         sensing (Some (WithSddRes mifare_card))]
        polling_reader)) = [''04A1B2C3'']"
proof -
  let ?c = "WithSddRes mifare_card"
  have h: "running polling_reader" "clf polling_reader \<noteq> None"
    "card_callback polling_reader \<noteq> None"
    "sense_result (sensing_raising (Some ?c)) = Inr (Some ?c)"
    "fst (extract_uid_remote ?c) = Inr ''04A1B2C3''"
    "''04A1B2C3'' \<noteq> []" "current_uid polling_reader \<noteq> Some ''04A1B2C3''"
    "card_callback_raises (sensing_raising (Some ?c))
       = Some (Exception (PyException ''RuntimeError''))"
    by (simp_all add: polling_reader_eq sensing_raising_def extract_uid_remote_mifare_card)
  have rest: "\<forall>e' \<in> set [sensing (Some ?c), sensing (Some ?c)].
                \<exists>t. sense_result e' = Inr (Some t) \<and> fst (extract_uid_remote t) = Inr ''04A1B2C3''"
    by (simp add: sensing_def extract_uid_remote_mifare_card)
  note w = arrival_recorded_before_callback [OF h rest]
  from w [THEN conjunct1] have one:
    "iteration_body (sensing_raising (Some ?c)) polling_reader
       = (Some (Exception (PyException ''RuntimeError'')),
          polling_reader\<lparr>current_uid := Some ''04A1B2C3''\<rparr>,
          [Sense, Activate, CardCallback ''04A1B2C3''])"
    by (simp add: extract_uid_remote_mifare_card)
  from w [THEN conjunct2, THEN conjunct1] have two:
    "reader_iteration (sensing_raising (Some ?c)) polling_reader
       = (None, polling_reader\<lparr>current_uid := Some ''04A1B2C3''\<rparr>,
          [Sense, Activate, CardCallback ''04A1B2C3''])"
    by (simp add: extract_uid_remote_mifare_card del: while_running.simps)
  from w [THEN conjunct2, THEN conjunct2, THEN conjunct1] have three:
    "arrivals (snd (while_running
        [sensing_raising (Some ?c), sensing (Some ?c), sensing (Some ?c)] polling_reader))
       = [''04A1B2C3'']" .
  from one two three show ?thesis by (simp del: while_running.simps)
qed

theorem callback_exit_ends_loop_counterexample:
  "reader_iteration (sensing_exiting (Some (WithSddRes mifare_card))) polling_reader
     = (Some ''SystemExit'', polling_reader\<lparr>current_uid := Some ''04A1B2C3''\<rparr>,
        [Sense, Activate, CardCallback ''04A1B2C3''])
   \<and> while_running
        [sensing_exiting (Some (WithSddRes mifare_card)), sensing None,
         sensing (Some (WithSddRes mifare_card))]
        polling_reader
     = (polling_reader\<lparr>current_uid := Some ''04A1B2C3''\<rparr>,
        [Sense, Activate, CardCallback ''04A1B2C3''])"
proof -
  have "iteration_body (sensing_exiting (Some (WithSddRes mifare_card))) polling_reader
     = (Some (BaseException ''SystemExit''), polling_reader\<lparr>current_uid := Some ''04A1B2C3''\<rparr>,
        [Sense, Activate, CardCallback ''04A1B2C3''])"
    using iteration_body_mifare_card [of polling_reader
        "sensing_exiting (Some (WithSddRes mifare_card))"]
    by (simp add: sensing_exiting_def polling_reader_eq)
  then have it: "reader_iteration (sensing_exiting (Some (WithSddRes mifare_card))) polling_reader
     = (Some ''SystemExit'', polling_reader\<lparr>current_uid := Some ''04A1B2C3''\<rparr>,
        [Sense, Activate, CardCallback ''04A1B2C3''])"
    by (simp add: reader_iteration_def)
  have "running polling_reader" by (simp add: polling_reader_eq)
  with it show ?thesis by simp
qed

end
